theory Spec2Isabelle
  imports Main "HOL-Library.Word"
begin

unbundle bit_operations_syntax

section \<open>Junkcoin chain parameters (chaincfg/junkcoinparams.go)\<close>

text \<open>
  The source file is a table of constants: two \<open>Params\<close> literals, the two genesis
  blocks, the shared coinbase transaction, the proof-of-work limits and the package
  initialiser that registers both networks. Go's fixed-width integers are words,
  \<open>big.Int\<close> and \<open>time.Duration\<close> (nanoseconds, far from the 64-bit bound at the values
  used here) are \<open>int\<close>, byte slices and \<open>chainhash.Hash\<close> (a 32-byte array) are lists
  of bytes, and a panic is the \<open>Inl\<close> branch of a sum.
\<close>

type_synonym u8 = "8 word"
type_synonym u32 = "32 word"
type_synonym u64 = "64 word"
type_synonym Hash = "u8 list"

datatype error =
    ErrHashStrSize
  | ErrInvalidHex
  | DuplicateNetwork
  | CheckpointMismatch

subsection \<open>Parsing a hash from its big-endian hex string\<close>

text \<open>
  Modelled from the spec: \<open>chainhash.NewHashFromStr\<close>, which \<open>mustParseHash\<close> calls, is
  missing from the source file. The spec fixes the "big-endian display convention" of a
  hash; the source's comment on \<open>mustParseHash\<close> says it "converts the passed big-endian
  hex string into a \<open>chainhash.Hash\<close>". The string holds at most 64 hex digits, an odd
  number of digits is padded with a leading zero, the decoded bytes are right-aligned in
  a zeroed 32-byte array, and the array is byte-reversed.
\<close>

definition fromHexChar :: "char \<Rightarrow> u8 option" where
  "fromHexChar c =
     (let n = (of_char c :: nat) in
      if 48 \<le> n \<and> n \<le> 57 then Some (of_nat (n - 48))
      else if 97 \<le> n \<and> n \<le> 102 then Some (of_nat (n - 87))
      else if 65 \<le> n \<and> n \<le> 70 then Some (of_nat (n - 55))
      else None)"

fun hex_Decode :: "string \<Rightarrow> u8 list option" where
  "hex_Decode [] = Some []"
| "hex_Decode [c] = None"
| "hex_Decode (a # b # cs) =
     (case fromHexChar a of None \<Rightarrow> None
      | Some hi \<Rightarrow> (case fromHexChar b of None \<Rightarrow> None
          | Some lo \<Rightarrow> (case hex_Decode cs of None \<Rightarrow> None
              | Some bs \<Rightarrow> Some ((push_bit 4 hi OR lo) # bs))))"

definition NewHashFromStr :: "string \<Rightarrow> error + Hash" where
  "NewHashFromStr src =
     (if length src > 64 then Inl ErrHashStrSize
      else case hex_Decode (if even (length src) then src else CHR ''0'' # src) of
             None \<Rightarrow> Inl ErrInvalidHex
           | Some bs \<Rightarrow> Inr (rev (replicate (32 - length bs) 0 @ bs)))"

text \<open>
  \<open>mustParseHash\<close> panics on an error and returns the hash otherwise. The panic is the
  \<open>Inl\<close> branch; the package-level variables below take the \<open>Inr\<close> value, and the
  lemmas \<open>junkcoinGenesisMerkleRoot_parses\<close> and \<open>checkpoint_hashes_parse\<close> show that the
  strings used there parse.
\<close>

definition mustParseHash :: "string \<Rightarrow> error + Hash" where
  "mustParseHash s = (case NewHashFromStr s of Inl err \<Rightarrow> Inl err | Inr hash \<Rightarrow> Inr hash)"

text \<open>
  Modelled from the spec: \<open>newHashFromStr\<close> is declared in another file of the package
  (the spec's design notes describe it as the hash-parsing construction helper for
  hard-coded input); it is the same parse of a big-endian hex string.
\<close>

definition newHashFromStr :: "string \<Rightarrow> error + Hash" where
  "newHashFromStr hexStr = NewHashFromStr hexStr"

text \<open>\<open>chainhash.Hash{}\<close>: the zero value of a 32-byte array.\<close>

definition zeroHash :: Hash where
  "zeroHash = replicate 32 0"

subsection \<open>Transactions and the shared genesis coinbase\<close>

record OutPoint =
  Hash :: Hash
  Index :: u32

record TxIn =
  PreviousOutPoint :: OutPoint
  SignatureScript :: "u8 list"
  Sequence :: u32

record TxOut =
  Value :: int
  PkScript :: "u8 list"

record MsgTx =
  Version :: u32
  TxIn :: "TxIn list"
  TxOut :: "TxOut list"
  LockTime :: u32

definition genesisCoinbaseTx :: MsgTx where
  "genesisCoinbaseTx = \<lparr>
     Version = 1,
     TxIn = [\<lparr>
       PreviousOutPoint = \<lparr>Hash = zeroHash, Index = 0xffffffff\<rparr>,
       SignatureScript = [
         0x04, 0xff, 0xff, 0x00, 0x1d, 0x01, 0x04, 0x45,
         0x54, 0x68, 0x65, 0x20, 0x54, 0x69, 0x6d, 0x65,
         0x73, 0x20, 0x30, 0x33, 0x2f, 0x4a, 0x61, 0x6e,
         0x2f, 0x32, 0x30, 0x30, 0x39, 0x20, 0x43, 0x68,
         0x61, 0x6e, 0x63, 0x65, 0x6c, 0x6c, 0x6f, 0x72,
         0x20, 0x6f, 0x6e, 0x20, 0x62, 0x72, 0x69, 0x6e,
         0x6b, 0x20, 0x6f, 0x66, 0x20, 0x73, 0x65, 0x63,
         0x6f, 0x6e, 0x64, 0x20, 0x62, 0x61, 0x69, 0x6c,
         0x6f, 0x75, 0x74, 0x20, 0x66, 0x6f, 0x72, 0x20,
         0x62, 0x61, 0x6e, 0x6b, 0x73],
       Sequence = 0xffffffff\<rparr>],
     TxOut = [\<lparr>
       Value = 0x12a05f200,
       PkScript = [
         0x41, 0x04, 0x67, 0x8a, 0xfd, 0xb0, 0xfe, 0x55,
         0x48, 0x27, 0x19, 0x67, 0xf1, 0xa6, 0x71, 0x30,
         0xb7, 0x10, 0x5c, 0xd6, 0xa8, 0x28, 0xe0, 0x39,
         0x09, 0xa6, 0x79, 0x62, 0xe0, 0xea, 0x1f, 0x61,
         0xde, 0xb6, 0x49, 0xf6, 0xbc, 0x3f, 0x4c, 0xef,
         0x38, 0xc4, 0xf3, 0x55, 0x04, 0xe5, 0x1e, 0xc1,
         0x12, 0xde, 0x5c, 0x38, 0x4d, 0xf7, 0xba, 0x0b,
         0x8d, 0x57, 0x8a, 0x4c, 0x70, 0x2b, 0x6b, 0xf1,
         0x1d, 0x5f, 0xac]\<rparr>],
     LockTime = 0\<rparr>"

subsection \<open>Block headers and the two genesis blocks\<close>

text \<open>
  \<open>Timestamp\<close> is the Unix time in seconds (\<open>time.Unix(sec, 0)\<close>); \<open>Version\<close> is the
  32-bit pattern of Go's \<open>int32\<close>.
\<close>

record BlockHeader =
  Version :: u32
  PrevBlock :: Hash
  MerkleRoot :: Hash
  Timestamp :: int
  Bits :: u32
  Nonce :: u32

record MsgBlock =
  Header :: BlockHeader
  Transactions :: "MsgTx list"

definition time_Unix :: "int \<Rightarrow> int \<Rightarrow> int" where
  "time_Unix sec nsec = sec + nsec div 1000000000"

definition junkcoinGenesisMerkleRoot :: Hash where
  "junkcoinGenesisMerkleRoot =
     projr (mustParseHash ''4a5e1e4baab89f3a32518a88c31bc87f618f76673e2cc77ab2127b7afdeda33b'')"

definition junkcoinGenesisBlock :: MsgBlock where
  "junkcoinGenesisBlock = \<lparr>
     Header = \<lparr>
       Version = 1,
       PrevBlock = zeroHash,
       MerkleRoot = junkcoinGenesisMerkleRoot,
       Timestamp = time_Unix 1231006505 0,
       Bits = 0x1d00ffff,
       Nonce = 2083236893\<rparr>,
     Transactions = [genesisCoinbaseTx]\<rparr>"

definition junkcoinTestNetGenesisMerkleRoot :: Hash where
  "junkcoinTestNetGenesisMerkleRoot =
     projr (mustParseHash ''4a5e1e4baab89f3a32518a88c31bc87f618f76673e2cc77ab2127b7afdeda33b'')"

definition junkcoinTestNetGenesisBlock :: MsgBlock where
  "junkcoinTestNetGenesisBlock = \<lparr>
     Header = \<lparr>
       Version = 1,
       PrevBlock = zeroHash,
       MerkleRoot = junkcoinTestNetGenesisMerkleRoot,
       Timestamp = time_Unix 1296688602 0,
       Bits = 0x1d00ffff,
       Nonce = 414098458\<rparr>,
     Transactions = [genesisCoinbaseTx]\<rparr>"

subsection \<open>SHA-256 and the block hash\<close>

text \<open>
  Modelled from the spec: \<open>BlockHash\<close> (the spec's deterministic content hash of a
  block) is missing from the source file, and so is the hash function, which the spec
  leaves to the block-header format. That format's hash is the double SHA-256 of the
  80-byte header serialisation. SHA-256 is written here as FIPS 180-4 defines it, on
  32-bit words: the message is padded to a multiple of 64 bytes, each 64-byte block is
  loaded as sixteen big-endian words and expanded to the 64-word message schedule, and
  64 rounds update the eight working registers, which are then added to the chaining
  value. The lemma \<open>Sum256_abc\<close> checks the model against the standard's test vector.
\<close>

text \<open>The round constants, eight rows of eight words.\<close>

definition K256 :: "u32 list" where
  "K256 = concat [
    [0x428a2f98, 0x71374491, 0xb5c0fbcf, 0xe9b5dba5, 0x3956c25b, 0x59f111f1, 0x923f82a4, 0xab1c5ed5],
    [0xd807aa98, 0x12835b01, 0x243185be, 0x550c7dc3, 0x72be5d74, 0x80deb1fe, 0x9bdc06a7, 0xc19bf174],
    [0xe49b69c1, 0xefbe4786, 0x0fc19dc6, 0x240ca1cc, 0x2de92c6f, 0x4a7484aa, 0x5cb0a9dc, 0x76f988da],
    [0x983e5152, 0xa831c66d, 0xb00327c8, 0xbf597fc7, 0xc6e00bf3, 0xd5a79147, 0x06ca6351, 0x14292967],
    [0x27b70a85, 0x2e1b2138, 0x4d2c6dfc, 0x53380d13, 0x650a7354, 0x766a0abb, 0x81c2c92e, 0x92722c85],
    [0xa2bfe8a1, 0xa81a664b, 0xc24b8b70, 0xc76c51a3, 0xd192e819, 0xd6990624, 0xf40e3585, 0x106aa070],
    [0x19a4c116, 0x1e376c08, 0x2748774c, 0x34b0bcb5, 0x391c0cb3, 0x4ed8aa4a, 0x5b9cca4f, 0x682e6ff3],
    [0x748f82ee, 0x78a5636f, 0x84c87814, 0x8cc70208, 0x90befffa, 0xa4506ceb, 0xbef9a3f7, 0xc67178f2]]"

type_synonym regs = "u32 \<times> u32 \<times> u32 \<times> u32 \<times> u32 \<times> u32 \<times> u32 \<times> u32"

definition init_regs :: regs where
  "init_regs = (0x6a09e667, 0xbb67ae85, 0x3c6ef372, 0xa54ff53a,
                0x510e527f, 0x9b05688c, 0x1f83d9ab, 0x5be0cd19)"

definition rotr :: "nat \<Rightarrow> u32 \<Rightarrow> u32" where
  "rotr n x = drop_bit n x OR push_bit (32 - n) x"

definition ssig0 :: "u32 \<Rightarrow> u32" where
  "ssig0 x = rotr 7 x XOR rotr 18 x XOR drop_bit 3 x"

definition ssig1 :: "u32 \<Rightarrow> u32" where
  "ssig1 x = rotr 17 x XOR rotr 19 x XOR drop_bit 10 x"

definition bsig0 :: "u32 \<Rightarrow> u32" where
  "bsig0 x = rotr 2 x XOR rotr 13 x XOR rotr 22 x"

definition bsig1 :: "u32 \<Rightarrow> u32" where
  "bsig1 x = rotr 6 x XOR rotr 11 x XOR rotr 25 x"

definition ch :: "u32 \<Rightarrow> u32 \<Rightarrow> u32 \<Rightarrow> u32" where
  "ch e f g = (e AND f) XOR (NOT e AND g)"

definition maj :: "u32 \<Rightarrow> u32 \<Rightarrow> u32 \<Rightarrow> u32" where
  "maj a b c = (a AND b) XOR (a AND c) XOR (b AND c)"

fun load_words :: "u8 list \<Rightarrow> u32 list" where
  "load_words (b0 # b1 # b2 # b3 # bs) =
     (push_bit 24 (ucast b0) OR push_bit 16 (ucast b1) OR push_bit 8 (ucast b2) OR ucast b3)
       # load_words bs"
| "load_words _ = []"

text \<open>
  The message schedule over a sliding window of the last sixteen words:
  \<open>W\<^sub>t = \<sigma>\<^sub>1(W\<^sub>t\<^sub>-\<^sub>2) + W\<^sub>t\<^sub>-\<^sub>7 + \<sigma>\<^sub>0(W\<^sub>t\<^sub>-\<^sub>1\<^sub>5) + W\<^sub>t\<^sub>-\<^sub>1\<^sub>6\<close>. \<open>expand 48\<close> of the sixteen
  loaded words is the whole schedule \<open>W\<^sub>0 \<dots> W\<^sub>6\<^sub>3\<close>.
\<close>

definition next_w :: "u32 list \<Rightarrow> u32" where
  "next_w win = ssig1 (win ! 14) + win ! 9 + ssig0 (win ! 1) + win ! 0"

fun expand :: "nat \<Rightarrow> u32 list \<Rightarrow> u32 list" where
  "expand 0 win = win"
| "expand (Suc n) win = hd win # expand n (tl win @ [next_w win])"

fun round_step :: "u32 \<Rightarrow> u32 \<Rightarrow> regs \<Rightarrow> regs" where
  "round_step k w (a, b, c, d, e, f, g, h) =
    (let t1 = h + bsig1 e + ch e f g + k + w;
         t2 = bsig0 a + maj a b c
     in (t1 + t2, a, b, c, d + t1, e, f, g))"

fun rounds :: "regs \<Rightarrow> u32 list \<Rightarrow> u32 list \<Rightarrow> regs" where
  "rounds r (k # ks) (w # ws) = rounds (round_step k w r) ks ws"
| "rounds r _ _ = r"

fun add_regs :: "regs \<Rightarrow> regs \<Rightarrow> regs" where
  "add_regs (h0, h1, h2, h3, h4, h5, h6, h7) (a, b, c, d, e, f, g, h) =
     (h0 + a, h1 + b, h2 + c, h3 + d, h4 + e, h5 + f, h6 + g, h7 + h)"

definition block :: "regs \<Rightarrow> u8 list \<Rightarrow> regs" where
  "block hs p = add_regs hs (rounds hs K256 (expand 48 (load_words p)))"

fun blocks :: "regs \<Rightarrow> u8 list \<Rightarrow> regs" where
  "blocks hs p = (if length p < 64 then hs else blocks (block hs (take 64 p)) (drop 64 p))"

declare blocks.simps [simp del]

definition be64 :: "u64 \<Rightarrow> u8 list" where
  "be64 v = map (\<lambda>s. ucast (drop_bit s v)) [56, 48, 40, 32, 24, 16, 8, 0]"

definition be32 :: "u32 \<Rightarrow> u8 list" where
  "be32 v = map (\<lambda>s. ucast (drop_bit s v)) [24, 16, 8, 0]"

definition le32 :: "u32 \<Rightarrow> u8 list" where
  "le32 v = map (\<lambda>s. ucast (drop_bit s v)) [0, 8, 16, 24]"

text \<open>
  The padding of a message of \<open>len\<close> bytes: the byte \<open>0x80\<close>, zero bytes up to 56
  modulo 64, and the message length in bits as a big-endian 64-bit integer.
\<close>

definition padding :: "nat \<Rightarrow> u8 list" where
  "padding len =
     (let t = (if len mod 64 < 56 then 56 - len mod 64 else 64 + 56 - len mod 64)
      in 0x80 # replicate (t - 1) 0 @ be64 (push_bit 3 (of_nat len)))"

fun digest :: "regs \<Rightarrow> u8 list" where
  "digest (h0, h1, h2, h3, h4, h5, h6, h7) = concat (map be32 [h0, h1, h2, h3, h4, h5, h6, h7])"

definition Sum256 :: "u8 list \<Rightarrow> u8 list" where
  "Sum256 msg = digest (blocks init_regs (msg @ padding (length msg)))"

definition DoubleHashB :: "u8 list \<Rightarrow> Hash" where
  "DoubleHashB b = Sum256 (Sum256 b)"

text \<open>
  The header serialisation hashed by \<open>BlockHash\<close>: version, previous block hash, merkle
  root, the timestamp as \<open>uint32\<close> seconds, bits and nonce, integers little-endian.
\<close>

definition writeBlockHeader :: "BlockHeader \<Rightarrow> u8 list" where
  "writeBlockHeader bh =
     le32 (Version bh) @ PrevBlock bh @ MerkleRoot bh @
     le32 (of_int (Timestamp bh)) @ le32 (Bits bh) @ le32 (Nonce bh)"

definition BlockHash :: "MsgBlock \<Rightarrow> Hash" where
  "BlockHash msg = DoubleHashB (writeBlockHeader (Header msg))"

definition junkcoinGenesisHash :: Hash where
  "junkcoinGenesisHash = BlockHash junkcoinGenesisBlock"

definition junkcoinTestNetGenesisHash :: Hash where
  "junkcoinTestNetGenesisHash = BlockHash junkcoinTestNetGenesisBlock"

subsection \<open>The parameter sets\<close>

record DNSSeed =
  Host :: string
  HasFiltering :: bool

record Checkpoint =
  Height :: int
  Hash :: Hash

text \<open>
  The \<open>Params\<close> struct is declared elsewhere in the package; the record has the fields
  the two literals of the source set, in their order.
\<close>

record Params =
  Name :: string
  Net :: u32
  DefaultPort :: string
  DNSSeeds :: "DNSSeed list"
  GenesisBlock :: MsgBlock
  GenesisHash :: Hash
  PowLimit :: int
  PowLimitBits :: u32
  BIP0034Height :: int
  BIP0065Height :: int
  BIP0066Height :: int
  CoinbaseMaturity :: "16 word"
  SubsidyReductionInterval :: int
  TargetTimespan :: int
  TargetTimePerBlock :: int
  RetargetAdjustmentFactor :: int
  ReduceMinDifficulty :: bool
  MinDiffReductionTime :: int
  GenerateSupported :: bool
  Checkpoints :: "Checkpoint list"
  RuleChangeActivationThreshold :: u32
  MinerConfirmationWindow :: u32
  RelayNonStdTxs :: bool
  Bech32HRPSegwit :: string
  PubKeyHashAddrID :: u8
  ScriptHashAddrID :: u8
  PrivateKeyID :: u8
  WitnessPubKeyHashAddrID :: u8
  WitnessScriptHashAddrID :: u8
  HDPrivateKeyID :: "u8 list"
  HDPublicKeyID :: "u8 list"
  HDCoinType :: u32

text \<open>\<open>time.Duration\<close> counts nanoseconds.\<close>

definition time_Second :: int where
  "time_Second = 1000000000"

definition time_Minute :: int where
  "time_Minute = 60 * time_Second"

definition time_Hour :: int where
  "time_Hour = 60 * time_Minute"

text \<open>
  Modelled from the spec: \<open>bigOne\<close> is declared in another file of the package; the
  source's comment on the limits ("It is the value 2^224 - 1") fixes it as the integer 1.
\<close>

definition bigOne :: int where
  "bigOne = 1"

definition junkcoinMainPowLimit :: int where
  "junkcoinMainPowLimit = push_bit 224 bigOne - bigOne"

definition junkcoinTestNetPowLimit :: int where
  "junkcoinTestNetPowLimit = push_bit 224 bigOne - bigOne"

definition JunkcoinMainNetParams :: Params where
  "JunkcoinMainNetParams = \<lparr>
     Name = ''junkcoin-mainnet'',
     Net = 0x6a756e6b,
     DefaultPort = ''9771'',
     DNSSeeds = [
       \<lparr>Host = ''mainnet.junk-coin.com'', HasFiltering = True\<rparr>,
       \<lparr>Host = ''junk-seed.s3na.xyz'', HasFiltering = True\<rparr>,
       \<lparr>Host = ''jkc-seed.junkiewally.xyz'', HasFiltering = True\<rparr>],
     GenesisBlock = junkcoinGenesisBlock,
     GenesisHash = junkcoinGenesisHash,
     PowLimit = junkcoinMainPowLimit,
     PowLimitBits = 0x1e0ffff0,
     BIP0034Height = 0,
     BIP0065Height = 0,
     BIP0066Height = 0,
     CoinbaseMaturity = 70,
     SubsidyReductionInterval = 518400,
     TargetTimespan = time_Hour * 24,
     TargetTimePerBlock = time_Minute * 1,
     RetargetAdjustmentFactor = 4,
     ReduceMinDifficulty = False,
     MinDiffReductionTime = 0,
     GenerateSupported = False,
     Checkpoints = [
       \<lparr>Height = 0, Hash = projr (newHashFromStr ''a2effa738145e377e08a61d76179c21703e13e48910b30a2a87f0dfe794b64c6'')\<rparr>,
       \<lparr>Height = 1, Hash = projr (newHashFromStr ''ca55073a54775a1ef78294f53f38a3e02d0654d7417f3cbbe4d28d17d50e07d0'')\<rparr>,
       \<lparr>Height = 53, Hash = projr (newHashFromStr ''b623a39a5a0534990a59916d5803fa2bd6a6d52d8e594546936a42a2cc9b0441'')\<rparr>,
       \<lparr>Height = 117, Hash = projr (newHashFromStr ''6cab49bd69fcce2bb48793cc064bb49e75f068e7029b5173db83654fbcb5953d'')\<rparr>,
       \<lparr>Height = 200, Hash = projr (newHashFromStr ''45257b0f2ee6d5c55ac16a76817d7151b776d6452ae6f21426eaa42345b831f8'')\<rparr>,
       \<lparr>Height = 6452, Hash = projr (newHashFromStr ''506562c2172d9f10e86d2b467ed3bb7b9eba40148d18d1e660c1ff692604f3fc'')\<rparr>,
       \<lparr>Height = 10978, Hash = projr (newHashFromStr ''1c9f7f7a4702f8225df430b259ac58c387de99439be8a8789841a1c011ead7fc'')\<rparr>,
       \<lparr>Height = 17954, Hash = projr (newHashFromStr ''6036051659e92a17cb7488040e05a94483b7a7f88b184156c136d51ff0390a7d'')\<rparr>,
       \<lparr>Height = 23978, Hash = projr (newHashFromStr ''7924154aa896363ec9be3ca5f939602f72cf4a5396e6e1cd9139335dd1819487'')\<rparr>,
       \<lparr>Height = 33212, Hash = projr (newHashFromStr ''448040ac454da8654d9c58ad79386aa1a88fd113be0fcc5ca39ecd3eae8c8618'')\<rparr>,
       \<lparr>Height = 45527, Hash = projr (newHashFromStr ''f2420d964001d4d2c8bc0d9283f3f684d4d91a509a50985888458a68e08e1c82'')\<rparr>,
       \<lparr>Height = 57484, Hash = projr (newHashFromStr ''c3e95c6fb35f4b39006c89538415b4f50a253a3ac1cad0e583fb287f6bd91be1'')\<rparr>,
       \<lparr>Height = 69240, Hash = projr (newHashFromStr ''c34f5d113fe92f3206ef8855caf51cd6252286e3381b253bbc1237211198c22b'')\<rparr>,
       \<lparr>Height = 73892, Hash = projr (newHashFromStr ''d05129c2d9f3e99565bf84fbceabbc61728e4d644173e194823b639f7c406b04'')\<rparr>,
       \<lparr>Height = 168312, Hash = projr (newHashFromStr ''deea2bcecb1146ae9cd74d67b29b4d0161e9bb63beb9022ca10f3625dda6c0e6'')\<rparr>],
     RuleChangeActivationThreshold = 9576,
     MinerConfirmationWindow = 10080,
     RelayNonStdTxs = False,
     Bech32HRPSegwit = ''jc'',
     PubKeyHashAddrID = 0x10,
     ScriptHashAddrID = 0x05,
     PrivateKeyID = 0x90,
     WitnessPubKeyHashAddrID = 0x06,
     WitnessScriptHashAddrID = 0x0A,
     HDPrivateKeyID = [0x04, 0x88, 0xad, 0xe4],
     HDPublicKeyID = [0x04, 0x88, 0xb2, 0x1e],
     HDCoinType = 2013\<rparr>"

definition JunkcoinTestNetParams :: Params where
  "JunkcoinTestNetParams = \<lparr>
     Name = ''junkcoin-testnet'',
     Net = 0x6a756e6b + 1,
     DefaultPort = ''19771'',
     DNSSeeds = [
       \<lparr>Host = ''testnet.junk-coin.com'', HasFiltering = True\<rparr>,
       \<lparr>Host = ''junk-testnet.s3na.xyz'', HasFiltering = True\<rparr>],
     GenesisBlock = junkcoinTestNetGenesisBlock,
     GenesisHash = junkcoinTestNetGenesisHash,
     PowLimit = junkcoinTestNetPowLimit,
     PowLimitBits = 0x1e0ffff0,
     BIP0034Height = 0,
     BIP0065Height = 0,
     BIP0066Height = 0,
     CoinbaseMaturity = 30,
     SubsidyReductionInterval = 518400,
     TargetTimespan = time_Hour * 4,
     TargetTimePerBlock = time_Minute * 1,
     RetargetAdjustmentFactor = 4,
     ReduceMinDifficulty = True,
     MinDiffReductionTime = time_Minute * 2,
     GenerateSupported = True,
     Checkpoints = [
       \<lparr>Height = 0, Hash = projr (newHashFromStr ''a2effa738145e377e08a61d76179c21703e13e48910b30a2a87f0dfe794b64c6'')\<rparr>],
     RuleChangeActivationThreshold = 1512,
     MinerConfirmationWindow = 2016,
     RelayNonStdTxs = True,
     Bech32HRPSegwit = ''tj'',
     PubKeyHashAddrID = 0x6f,
     ScriptHashAddrID = 0xc4,
     PrivateKeyID = 0xef,
     WitnessPubKeyHashAddrID = 0x03,
     WitnessScriptHashAddrID = 0x28,
     HDPrivateKeyID = [0x04, 0x35, 0x83, 0x94],
     HDPublicKeyID = [0x04, 0x35, 0x87, 0xcf],
     HDCoinType = 11337\<rparr>"

text \<open>The parameter sets the package initialiser registers, in its order.\<close>

definition registered_params :: "Params list" where
  "registered_params = [JunkcoinMainNetParams, JunkcoinTestNetParams]"

section \<open>The registry and the policies that read the parameters\<close>

text \<open>
  The source file calls \<open>Register\<close> and fills in the fields that the difficulty and
  checkpoint policies read; the functions themselves are in other files of the
  repository. They are modelled from the specification's description of them.
\<close>

subsection \<open>Registry\<close>

text \<open>
  Modelled from the spec: the registry and \<open>Register\<close> are missing from the source file.
  The registry holds a mapping from the network magic and a mapping from the name to the
  parameter set. \<open>register\<close> "fails with \<open>DuplicateNetwork\<close> if \<open>network_magic\<close> or
  \<open>name\<close> already present. Otherwise inserts atomically (both maps updated together or
  neither)". The result pairs the outcome with the registry afterwards.
\<close>

record Registry =
  by_magic :: "u32 \<rightharpoonup> Params"
  by_name :: "string \<rightharpoonup> Params"


definition Register :: "Registry \<Rightarrow> Params \<Rightarrow> (error + unit) \<times> Registry" where
  "Register r params =
     (if by_magic r (Net params) \<noteq> None \<or> by_name r (Name params) \<noteq> None
      then (Inl DuplicateNetwork, r)
      else (Inr (),
            r\<lparr>by_magic := (by_magic r)(Net params \<mapsto> params),
              by_name := (by_name r)(Name params \<mapsto> params)\<rparr>))"




text \<open>The registry that holds exactly the two networks of the source file.\<close>

definition junkcoin_registry :: Registry where
  "junkcoin_registry = \<lparr>
     by_magic = [0x6a756e6b \<mapsto> JunkcoinMainNetParams, 0x6a756e6c \<mapsto> JunkcoinTestNetParams],
     by_name = [''junkcoin-mainnet'' \<mapsto> JunkcoinMainNetParams,
                ''junkcoin-testnet'' \<mapsto> JunkcoinTestNetParams]\<rparr>"

subsection \<open>Compact difficulty encoding\<close>

text \<open>
  Modelled from the spec: the decoder and encoder of the compact form are missing from
  the source file. The compact form is the "4-byte compact float-like encoding (exponent +
  mantissa) standard to this block-header format": the top byte is the exponent, bit 23
  the sign, the low 23 bits the mantissa, and the value is
  \<open>mantissa * 256 ^ (exponent - 3)\<close> (the mantissa shifted right for exponents below 3).
\<close>

definition CompactToBig :: "u32 \<Rightarrow> int" where
  "CompactToBig compact =
     (let mantissa = compact AND 0x007fffff;
          isNegative = (compact AND 0x00800000 \<noteq> 0);
          exponent = unat (drop_bit 24 compact);
          bn = (if exponent \<le> 3
                then uint (drop_bit (8 * (3 - exponent)) mantissa)
                else push_bit (8 * (exponent - 3)) (uint mantissa))
      in if isNegative then - bn else bn)"

text \<open>The number of bytes of a magnitude (\<open>len(n.Bytes())\<close>).\<close>

function byte_len :: "nat \<Rightarrow> nat" where
  "byte_len n = (if n = 0 then 0 else Suc (byte_len (n div 256)))"
  by pat_completeness auto
termination
  by (relation "measure id") auto

declare byte_len.simps [simp del]

definition BigToCompact :: "int \<Rightarrow> u32" where
  "BigToCompact n =
     (if n = 0 then 0
      else
        let a = nat \<bar>n\<bar>;
            exponent = byte_len a;
            mantissa = (if exponent \<le> 3
                        then push_bit (8 * (3 - exponent)) (of_nat a)
                        else of_nat (drop_bit (8 * (exponent - 3)) a)) :: u32;
            carry = (mantissa AND 0x00800000 \<noteq> 0);
            mantissa' = (if carry then drop_bit 8 mantissa else mantissa);
            exponent' = (if carry then exponent + 1 else exponent);
            compact = push_bit 24 (of_nat exponent') OR mantissa'
        in if n < 0 then compact OR 0x00800000 else compact)"

subsection \<open>Difficulty policy\<close>

text \<open>
  Modelled from the spec: \<open>DifficultyPolicy.next_required_difficulty\<close> is missing from
  the source file. Off a retarget boundary it returns the previous block's bits, unless
  \<open>reduce_min_difficulty\<close> is enabled and the time gap since the previous block exceeds
  \<open>min_diff_reduction_time\<close>, when it returns \<open>pow_limit_bits\<close>. On a boundary the
  observed timespan is clamped to
  \<open>[target_timespan / retarget_adjustment_factor, target_timespan * retarget_adjustment_factor]\<close>,
  the new target is \<open>old_target * actual_timespan / target_timespan\<close>, clamped to
  \<open>pow_limit\<close>, and the result is encoded back to the compact form. The two time
  differences the rule reads off the recent headers (\<open>gap\<close> to the previous block,
  \<open>actual_timespan\<close> across the last retarget window) are arguments.
\<close>

definition blocks_per_retarget :: "Params \<Rightarrow> int" where
  "blocks_per_retarget params = TargetTimespan params div TargetTimePerBlock params"

definition clamp_timespan :: "Params \<Rightarrow> int \<Rightarrow> int" where
  "clamp_timespan params actual_timespan =
     (let lo = TargetTimespan params div RetargetAdjustmentFactor params;
          hi = TargetTimespan params * RetargetAdjustmentFactor params
      in if actual_timespan < lo then lo
         else if actual_timespan > hi then hi
         else actual_timespan)"

definition calc_next_target :: "Params \<Rightarrow> int \<Rightarrow> int \<Rightarrow> int" where
  "calc_next_target params old_target actual_timespan =
     (let new_target = old_target * clamp_timespan params actual_timespan div TargetTimespan params
      in if new_target > PowLimit params then PowLimit params else new_target)"

definition next_required_difficulty :: "Params \<Rightarrow> int \<Rightarrow> u32 \<Rightarrow> int \<Rightarrow> int \<Rightarrow> u32" where
  "next_required_difficulty params height prev_bits gap actual_timespan =
     (if height mod blocks_per_retarget params \<noteq> 0
      then (if ReduceMinDifficulty params \<and> gap > MinDiffReductionTime params
            then PowLimitBits params
            else prev_bits)
      else BigToCompact (calc_next_target params (CompactToBig prev_bits) actual_timespan))"

subsection \<open>Checkpoint policy\<close>

text \<open>
  Modelled from the spec: \<open>CheckpointPolicy.verify\<close> is missing from the source file. "If a
  checkpoint exists at \<open>height\<close>, the supplied \<open>hash\<close> must equal it exactly; otherwise
  the check passes."
\<close>

definition checkpoint_at :: "Params \<Rightarrow> int \<Rightarrow> Checkpoint option" where
  "checkpoint_at params height = find (\<lambda>c. Height c = height) (Checkpoints params)"

definition verify :: "Params \<Rightarrow> int \<Rightarrow> Hash \<Rightarrow> error + unit" where
  "verify params height hash =
     (case checkpoint_at params height of
        None \<Rightarrow> Inr ()
      | Some c \<Rightarrow> if Hash c = hash then Inr () else Inl CheckpointMismatch)"

section \<open>Properties of the constant tables\<close>

subsection \<open>Evaluation lemmas\<close>

lemma replicate_eval: "replicate n x = (if n = 0 then [] else x # replicate (n - 1) x)"
  by (cases n) simp_all

lemmas parse_eval =
  NewHashFromStr_def newHashFromStr_def mustParseHash_def fromHexChar_def Let_def replicate_eval

lemma junkcoinGenesisMerkleRoot_parses:
  "mustParseHash ''4a5e1e4baab89f3a32518a88c31bc87f618f76673e2cc77ab2127b7afdeda33b'' =
     Inr [0x3b, 0xa3, 0xed, 0xfd, 0x7a, 0x7b, 0x12, 0xb2, 0x7a, 0xc7, 0x2c, 0x3e, 0x67, 0x76, 0x8f, 0x61,
          0x7f, 0xc8, 0x1b, 0xc3, 0x88, 0x8a, 0x51, 0x32, 0x3a, 0x9f, 0xb8, 0xaa, 0x4b, 0x1e, 0x5e, 0x4a]"
  by (simp add: parse_eval)

lemma checkpoint0_parses:
  "newHashFromStr ''a2effa738145e377e08a61d76179c21703e13e48910b30a2a87f0dfe794b64c6'' =
     Inr [0xc6, 0x64, 0x4b, 0x79, 0xfe, 0x0d, 0x7f, 0xa8, 0xa2, 0x30, 0x0b, 0x91, 0x48, 0x3e, 0xe1, 0x03,
          0x17, 0xc2, 0x79, 0x61, 0xd7, 0x61, 0x8a, 0xe0, 0x77, 0xe3, 0x45, 0x81, 0x73, 0xfa, 0xef, 0xa2]"
  by (simp add: parse_eval)

text \<open>Every checkpoint string of both tables parses to a 32-byte hash.\<close>

lemma checkpoint_hashes_parse:
  "list_all (\<lambda>c. length (Hash c) = 32) (Checkpoints JunkcoinMainNetParams)
   \<and> list_all (\<lambda>c. length (Hash c) = 32) (Checkpoints JunkcoinTestNetParams)"
  by (simp add: JunkcoinMainNetParams_def JunkcoinTestNetParams_def parse_eval)

subsection \<open>Genesis hash, checkpoints, voting window, retarget window, limits\<close>


text \<open>
  C4. In both registered parameter sets the checkpoint heights are strictly increasing
  along the list, and no height occurs twice.
\<close>

theorem checkpoints_strictly_increasing:
  "list_all (\<lambda>p. sorted_wrt (<) (map Height (Checkpoints p))
                \<and> distinct (map Height (Checkpoints p)))
     registered_params"
  by (simp add: registered_params_def JunkcoinMainNetParams_def JunkcoinTestNetParams_def)

text \<open>
  C7. In both registered parameter sets \<open>RuleChangeActivationThreshold\<close> is at most
  \<open>MinerConfirmationWindow\<close>: 9576 and 10080 on the main network, 1512 and 2016 on the
  test network.
\<close>

theorem threshold_le_window:
  "list_all (\<lambda>p. RuleChangeActivationThreshold p \<le> MinerConfirmationWindow p) registered_params
   \<and> RuleChangeActivationThreshold JunkcoinMainNetParams = 9576
   \<and> MinerConfirmationWindow JunkcoinMainNetParams = 10080
   \<and> RuleChangeActivationThreshold JunkcoinTestNetParams = 1512
   \<and> MinerConfirmationWindow JunkcoinTestNetParams = 2016"
  by (simp add: registered_params_def JunkcoinMainNetParams_def JunkcoinTestNetParams_def)

text \<open>
  C8. In both registered parameter sets \<open>TargetTimespan\<close> is an exact multiple of
  \<open>TargetTimePerBlock\<close>; the quotient, the number of blocks per retarget window, is 1440
  on the main network and 240 on the test network.
\<close>

theorem blocks_per_retarget_exact:
  "list_all (\<lambda>p. TargetTimespan p mod TargetTimePerBlock p = 0) registered_params
   \<and> TargetTimespan JunkcoinMainNetParams div TargetTimePerBlock JunkcoinMainNetParams = 1440
   \<and> TargetTimespan JunkcoinTestNetParams div TargetTimePerBlock JunkcoinTestNetParams = 240"
  by (simp add: registered_params_def JunkcoinMainNetParams_def JunkcoinTestNetParams_def
      time_Hour_def time_Minute_def time_Second_def)

text \<open>
  C9. Each genesis block holds exactly one transaction, the shared \<open>genesisCoinbaseTx\<close>;
  both headers carry the merkle root parsed from the string \<open>4a5e1e4b\<dots>eda33b\<close>; and
  the test network header is the main network header with another \<open>Timestamp\<close> and
  another \<open>Nonce\<close>, every other field being the same.
\<close>

theorem genesis_blocks_share_coinbase:
  "Transactions junkcoinGenesisBlock = [genesisCoinbaseTx]
   \<and> Transactions junkcoinTestNetGenesisBlock = [genesisCoinbaseTx]
   \<and> MerkleRoot (Header junkcoinGenesisBlock) = MerkleRoot (Header junkcoinTestNetGenesisBlock)
   \<and> mustParseHash ''4a5e1e4baab89f3a32518a88c31bc87f618f76673e2cc77ab2127b7afdeda33b''
        = Inr (MerkleRoot (Header junkcoinGenesisBlock))
   \<and> Header junkcoinTestNetGenesisBlock =
        (Header junkcoinGenesisBlock)\<lparr>Timestamp := 1296688602, Nonce := 414098458\<rparr>
   \<and> Timestamp (Header junkcoinGenesisBlock) \<noteq> Timestamp (Header junkcoinTestNetGenesisBlock)
   \<and> Nonce (Header junkcoinGenesisBlock) \<noteq> Nonce (Header junkcoinTestNetGenesisBlock)"
  by (simp add: junkcoinGenesisBlock_def junkcoinTestNetGenesisBlock_def
      junkcoinGenesisMerkleRoot_def junkcoinTestNetGenesisMerkleRoot_def
      junkcoinGenesisMerkleRoot_parses time_Unix_def)

text \<open>
  C10. \<open>PowLimit\<close> is the integer \<open>2^224 - 1\<close> on both networks, \<open>PowLimitBits\<close> is
  \<open>0x1e0ffff0\<close> on both, and so the two networks agree on both values.
\<close>

theorem pow_limits_equal:
  "PowLimit JunkcoinMainNetParams = 2 ^ 224 - 1
   \<and> PowLimit JunkcoinTestNetParams = 2 ^ 224 - 1
   \<and> PowLimit JunkcoinMainNetParams = PowLimit JunkcoinTestNetParams
   \<and> PowLimitBits JunkcoinMainNetParams = 0x1e0ffff0
   \<and> PowLimitBits JunkcoinTestNetParams = 0x1e0ffff0
   \<and> PowLimitBits JunkcoinMainNetParams = PowLimitBits JunkcoinTestNetParams"
  by (simp add: JunkcoinMainNetParams_def JunkcoinTestNetParams_def
      junkcoinMainPowLimit_def junkcoinTestNetPowLimit_def bigOne_def push_bit_eq_mult)

section \<open>Proof-of-work limit and its compact form\<close>

lemma CompactToBig_PowLimitBits: "CompactToBig 0x1e0ffff0 = 0x0ffff0 * 256 ^ (30 - 3)"
  by (simp add: CompactToBig_def Let_def push_bit_eq_mult)

lemma CompactToBig_genesis_bits: "CompactToBig 0x1d00ffff = 0x00ffff * 256 ^ (29 - 3)"
  by (simp add: CompactToBig_def Let_def push_bit_eq_mult)

text \<open>The decoder agrees with the rule \<open>mantissa * 256 ^ (exponent - 3)\<close>.\<close>

lemma CompactToBig_rule:
  assumes "compact AND 0x00800000 = 0" and "3 \<le> unat (drop_bit 24 compact)"
  shows "CompactToBig compact
         = uint (compact AND 0x007fffff) * 256 ^ (unat (drop_bit 24 compact) - 3)"
proof -
  have "(2::int) ^ (8 * n) = 256 ^ n" for n
    by (simp add: power_mult)
  with assms show ?thesis
    by (cases "unat (drop_bit 24 compact) = 3")
       (simp_all add: CompactToBig_def Let_def push_bit_eq_mult)
qed

lemma BigToCompact_PowLimit: "BigToCompact (2 ^ 224 - 1) = 0x1d00ffff"
  by (simp add: BigToCompact_def byte_len.simps Let_def drop_bit_eq_div)

text \<open>
  C1 (fails on the code). \<open>PowLimitBits = 0x1e0ffff0\<close> has exponent \<open>0x1e = 30\<close> and
  mantissa \<open>0x0ffff0\<close>, so it decodes to \<open>0x0ffff0 * 256^27\<close>, which is above
  \<open>PowLimit = 2^224 - 1\<close> on both networks: the claimed inequality
  \<open>decode(PowLimitBits) \<le> PowLimit\<close> is false. The compact form of \<open>2^224 - 1\<close> is
  \<open>0x1d00ffff\<close> (lemma \<open>BigToCompact_PowLimit\<close>), the value the genesis headers carry.
\<close>

theorem pow_limit_bits_above_pow_limit:
  "CompactToBig (PowLimitBits JunkcoinMainNetParams) = 0x0ffff0 * 256 ^ (30 - 3)
   \<and> PowLimit JunkcoinMainNetParams < CompactToBig (PowLimitBits JunkcoinMainNetParams)
   \<and> CompactToBig (PowLimitBits JunkcoinTestNetParams) = 0x0ffff0 * 256 ^ (30 - 3)
   \<and> PowLimit JunkcoinTestNetParams < CompactToBig (PowLimitBits JunkcoinTestNetParams)"
  by (simp add: JunkcoinMainNetParams_def JunkcoinTestNetParams_def CompactToBig_PowLimitBits
      junkcoinMainPowLimit_def junkcoinTestNetPowLimit_def bigOne_def push_bit_eq_mult)

section \<open>Registration of the two networks\<close>






lemma registered_params_registry:
  "ran (by_magic junkcoin_registry) = set registered_params
   \<and> ran (by_name junkcoin_registry) = set registered_params"
  by (simp add: junkcoin_registry_def registered_params_def insert_commute)

lemma Register_keeps_entries:
  assumes "Register r p = (res, r')"
  shows "by_magic r m = Some q \<Longrightarrow> by_magic r' m = Some q"
    and "by_name r n = Some q \<Longrightarrow> by_name r' n = Some q"
  using assms by (auto simp: Register_def split: if_splits)

lemma Register_ok_iff:
  "fst (Register r p) = Inr () \<longleftrightarrow> by_magic r (Net p) = None \<and> by_name r (Name p) = None"
  by (simp add: Register_def)



section \<open>Retargeting on the main network\<close>

text \<open>
  C6. On the main network (\<open>TargetTimespan\<close> 24 hours, \<open>RetargetAdjustmentFactor\<close> 4) an
  observed timespan of one hour is clamped to six hours, which is \<open>TargetTimespan / 4\<close>.
  The new target is \<open>old_target * 6h / 24h\<close> (capped at \<open>PowLimit\<close>), the same as for an
  observed timespan of six hours; and at a retarget boundary (a height that is a
  multiple of 1440) \<open>next_required_difficulty\<close> encodes exactly that target.
\<close>

theorem retarget_clamps_one_hour:
  "clamp_timespan JunkcoinMainNetParams time_Hour = 6 * time_Hour
   \<and> 6 * time_Hour = TargetTimespan JunkcoinMainNetParams div RetargetAdjustmentFactor JunkcoinMainNetParams
   \<and> calc_next_target JunkcoinMainNetParams old_target time_Hour
        = min (old_target * (6 * time_Hour) div TargetTimespan JunkcoinMainNetParams)
              (PowLimit JunkcoinMainNetParams)
   \<and> calc_next_target JunkcoinMainNetParams old_target time_Hour
        = calc_next_target JunkcoinMainNetParams old_target (6 * time_Hour)
   \<and> next_required_difficulty JunkcoinMainNetParams (1440 * k) prev_bits gap time_Hour
        = BigToCompact (min (CompactToBig prev_bits * (6 * time_Hour) div (24 * time_Hour))
                            (PowLimit JunkcoinMainNetParams))"
  by (simp add: clamp_timespan_def calc_next_target_def next_required_difficulty_def
      blocks_per_retarget_def JunkcoinMainNetParams_def Let_def min_def
      time_Hour_def time_Minute_def time_Second_def)

section \<open>The genesis block hash\<close>

subsection \<open>Evaluating SHA-256\<close>

text \<open>
  The equations below evaluate the compression function on numerals: on 32-bit words
  \<open>take_bit 32\<close> is the identity, and it keeps the numerals of the intermediate sums
  below \<open>2^32\<close>.
\<close>

lemma tb32: "take_bit 32 (x :: u32) = x"
  by (simp add: take_bit_word_eq_self)

lemma rotr_eval: "rotr n x = take_bit 32 (drop_bit n x OR push_bit (32 - n) x)"
  by (simp add: rotr_def tb32)

lemma next_w_eval:
  "next_w [w0, w1, w2, w3, w4, w5, w6, w7, w8, w9, w10, w11, w12, w13, w14, w15] =
     take_bit 32 (ssig1 w14 + w9 + ssig0 w1 + w0)"
  by (simp add: next_w_def tb32)

lemma expand_eval:
  "expand n win = (if n = 0 then win else hd win # expand (n - 1) (tl win @ [next_w win]))"
  by (cases n) simp_all

lemma round_step_eval:
  "round_step k w (a, b, c, d, e, f, g, h) =
    (let t1 = take_bit 32 (h + bsig1 e + ch e f g + k + w);
         t2 = take_bit 32 (bsig0 a + maj a b c)
     in (take_bit 32 (t1 + t2), a, b, c, take_bit 32 (d + t1), e, f, g))"
  by (simp only: round_step.simps tb32)

lemma add_regs_eval:
  "add_regs (h0, h1, h2, h3, h4, h5, h6, h7) (a, b, c, d, e, f, g, h) =
     (take_bit 32 (h0 + a), take_bit 32 (h1 + b), take_bit 32 (h2 + c), take_bit 32 (h3 + d),
      take_bit 32 (h4 + e), take_bit 32 (h5 + f), take_bit 32 (h6 + g), take_bit 32 (h7 + h))"
  by (simp only: add_regs.simps tb32)

lemmas sha_eval =
  block_def K256_def init_regs_def rotr_eval ssig0_def ssig1_def bsig0_def bsig1_def ch_def maj_def
  next_w_eval expand_eval round_step_eval add_regs_eval Let_def

lemmas sha_del = round_step.simps add_regs.simps expand.simps

lemma blocks_64: "length p = 64 \<Longrightarrow> blocks hs p = block hs p"
  by (simp add: blocks.simps [of hs p] blocks.simps [of _ "[]"])

lemma blocks_128:
  "length p = 128 \<Longrightarrow> blocks hs p = block (block hs (take 64 p)) (drop 64 p)"
  by (simp add: blocks.simps [of hs p] blocks_64)


text \<open>The test vector of FIPS 180-4 for the message \<open>abc\<close>.\<close>

lemma abc_block1:
  "block init_regs
     [0x61, 0x62, 0x63, 0x80, 0x00, 0x00, 0x00, 0x00, 0x00, 0x00, 0x00, 0x00, 0x00, 0x00, 0x00, 0x00,
      0x00, 0x00, 0x00, 0x00, 0x00, 0x00, 0x00, 0x00, 0x00, 0x00, 0x00, 0x00, 0x00, 0x00, 0x00, 0x00,
      0x00, 0x00, 0x00, 0x00, 0x00, 0x00, 0x00, 0x00, 0x00, 0x00, 0x00, 0x00, 0x00, 0x00, 0x00, 0x00,
      0x00, 0x00, 0x00, 0x00, 0x00, 0x00, 0x00, 0x00, 0x00, 0x00, 0x00, 0x00, 0x00, 0x00, 0x00, 0x18]
   = (0xba7816bf, 0x8f01cfea, 0x414140de, 0x5dae2223, 0xb00361a3, 0x96177a9c, 0xb410ff61, 0xf20015ad)"
  by (simp add: sha_eval del: sha_del)

lemma Sum256_abc:
  "Sum256
      [0x61, 0x62, 0x63]
   = [0xba, 0x78, 0x16, 0xbf, 0x8f, 0x01, 0xcf, 0xea, 0x41, 0x41, 0x40, 0xde, 0x5d, 0xae, 0x22, 0x23,
      0xb0, 0x03, 0x61, 0xa3, 0x96, 0x17, 0x7a, 0x9c, 0xb4, 0x10, 0xff, 0x61, 0xf2, 0x00, 0x15, 0xad]"
proof -
  have len: "length
      [0x61, 0x62, 0x63] = 3"
    by simp
  have pad: "[0x61, 0x62, 0x63]
      @ padding 3
    = [0x61, 0x62, 0x63, 0x80, 0x00, 0x00, 0x00, 0x00, 0x00, 0x00, 0x00, 0x00, 0x00, 0x00, 0x00, 0x00,
       0x00, 0x00, 0x00, 0x00, 0x00, 0x00, 0x00, 0x00, 0x00, 0x00, 0x00, 0x00, 0x00, 0x00, 0x00, 0x00,
       0x00, 0x00, 0x00, 0x00, 0x00, 0x00, 0x00, 0x00, 0x00, 0x00, 0x00, 0x00, 0x00, 0x00, 0x00, 0x00,
       0x00, 0x00, 0x00, 0x00, 0x00, 0x00, 0x00, 0x00, 0x00, 0x00, 0x00, 0x00, 0x00, 0x00, 0x00, 0x18]"
    by (simp add: padding_def be64_def replicate_eval)
  have run: "blocks init_regs
      [0x61, 0x62, 0x63, 0x80, 0x00, 0x00, 0x00, 0x00, 0x00, 0x00, 0x00, 0x00, 0x00, 0x00, 0x00, 0x00,
       0x00, 0x00, 0x00, 0x00, 0x00, 0x00, 0x00, 0x00, 0x00, 0x00, 0x00, 0x00, 0x00, 0x00, 0x00, 0x00,
       0x00, 0x00, 0x00, 0x00, 0x00, 0x00, 0x00, 0x00, 0x00, 0x00, 0x00, 0x00, 0x00, 0x00, 0x00, 0x00,
       0x00, 0x00, 0x00, 0x00, 0x00, 0x00, 0x00, 0x00, 0x00, 0x00, 0x00, 0x00, 0x00, 0x00, 0x00, 0x18]
    = (0xba7816bf, 0x8f01cfea, 0x414140de, 0x5dae2223, 0xb00361a3, 0x96177a9c, 0xb410ff61, 0xf20015ad)"
    by (simp add: blocks_64 abc_block1)
  have dig: "digest (0xba7816bf, 0x8f01cfea, 0x414140de, 0x5dae2223, 0xb00361a3, 0x96177a9c, 0xb410ff61, 0xf20015ad)
    = [0xba, 0x78, 0x16, 0xbf, 0x8f, 0x01, 0xcf, 0xea, 0x41, 0x41, 0x40, 0xde, 0x5d, 0xae, 0x22, 0x23,
      0xb0, 0x03, 0x61, 0xa3, 0x96, 0x17, 0x7a, 0x9c, 0xb4, 0x10, 0xff, 0x61, 0xf2, 0x00, 0x15, 0xad]"
    by (simp add: be32_def)
  show ?thesis
    unfolding Sum256_def len pad run by (rule dig)
qed

subsection \<open>The hash of the main network genesis header\<close>

lemma genesis_header_bytes:
  "writeBlockHeader (Header junkcoinGenesisBlock)
   = [0x01, 0x00, 0x00, 0x00, 0x00, 0x00, 0x00, 0x00, 0x00, 0x00, 0x00, 0x00, 0x00, 0x00, 0x00, 0x00,
      0x00, 0x00, 0x00, 0x00, 0x00, 0x00, 0x00, 0x00, 0x00, 0x00, 0x00, 0x00, 0x00, 0x00, 0x00, 0x00,
      0x00, 0x00, 0x00, 0x00, 0x3b, 0xa3, 0xed, 0xfd, 0x7a, 0x7b, 0x12, 0xb2, 0x7a, 0xc7, 0x2c, 0x3e,
      0x67, 0x76, 0x8f, 0x61, 0x7f, 0xc8, 0x1b, 0xc3, 0x88, 0x8a, 0x51, 0x32, 0x3a, 0x9f, 0xb8, 0xaa,
      0x4b, 0x1e, 0x5e, 0x4a, 0x29, 0xab, 0x5f, 0x49, 0xff, 0xff, 0x00, 0x1d, 0x1d, 0xac, 0x2b, 0x7c]"
  by (simp add: writeBlockHeader_def junkcoinGenesisBlock_def le32_def zeroHash_def replicate_eval
      junkcoinGenesisMerkleRoot_def junkcoinGenesisMerkleRoot_parses time_Unix_def)

lemma genesis_inner_block1:
  "block init_regs
     [0x01, 0x00, 0x00, 0x00, 0x00, 0x00, 0x00, 0x00, 0x00, 0x00, 0x00, 0x00, 0x00, 0x00, 0x00, 0x00,
      0x00, 0x00, 0x00, 0x00, 0x00, 0x00, 0x00, 0x00, 0x00, 0x00, 0x00, 0x00, 0x00, 0x00, 0x00, 0x00,
      0x00, 0x00, 0x00, 0x00, 0x3b, 0xa3, 0xed, 0xfd, 0x7a, 0x7b, 0x12, 0xb2, 0x7a, 0xc7, 0x2c, 0x3e,
      0x67, 0x76, 0x8f, 0x61, 0x7f, 0xc8, 0x1b, 0xc3, 0x88, 0x8a, 0x51, 0x32, 0x3a, 0x9f, 0xb8, 0xaa]
   = (0xbc909a33, 0x6358bff0, 0x90ccac7d, 0x1e59caa8, 0xc3c8d8e9, 0x4f0103c8, 0x96b18736, 0x4719f91b)"
  by (simp add: sha_eval del: sha_del)

lemma genesis_inner_block2:
  "block (0xbc909a33, 0x6358bff0, 0x90ccac7d, 0x1e59caa8, 0xc3c8d8e9, 0x4f0103c8, 0x96b18736, 0x4719f91b)
     [0x4b, 0x1e, 0x5e, 0x4a, 0x29, 0xab, 0x5f, 0x49, 0xff, 0xff, 0x00, 0x1d, 0x1d, 0xac, 0x2b, 0x7c,
      0x80, 0x00, 0x00, 0x00, 0x00, 0x00, 0x00, 0x00, 0x00, 0x00, 0x00, 0x00, 0x00, 0x00, 0x00, 0x00,
      0x00, 0x00, 0x00, 0x00, 0x00, 0x00, 0x00, 0x00, 0x00, 0x00, 0x00, 0x00, 0x00, 0x00, 0x00, 0x00,
      0x00, 0x00, 0x00, 0x00, 0x00, 0x00, 0x00, 0x00, 0x00, 0x00, 0x00, 0x00, 0x00, 0x00, 0x02, 0x80]
   = (0xaf42031e, 0x805ff493, 0xa07341e2, 0xf74ff581, 0x49d22ab9, 0xba19f613, 0x43e2c86c, 0x71c5d66d)"
  by (simp add: sha_eval del: sha_del)

lemma genesis_inner:
  "Sum256
      [0x01, 0x00, 0x00, 0x00, 0x00, 0x00, 0x00, 0x00, 0x00, 0x00, 0x00, 0x00, 0x00, 0x00, 0x00, 0x00,
       0x00, 0x00, 0x00, 0x00, 0x00, 0x00, 0x00, 0x00, 0x00, 0x00, 0x00, 0x00, 0x00, 0x00, 0x00, 0x00,
       0x00, 0x00, 0x00, 0x00, 0x3b, 0xa3, 0xed, 0xfd, 0x7a, 0x7b, 0x12, 0xb2, 0x7a, 0xc7, 0x2c, 0x3e,
       0x67, 0x76, 0x8f, 0x61, 0x7f, 0xc8, 0x1b, 0xc3, 0x88, 0x8a, 0x51, 0x32, 0x3a, 0x9f, 0xb8, 0xaa,
       0x4b, 0x1e, 0x5e, 0x4a, 0x29, 0xab, 0x5f, 0x49, 0xff, 0xff, 0x00, 0x1d, 0x1d, 0xac, 0x2b, 0x7c]
   = [0xaf, 0x42, 0x03, 0x1e, 0x80, 0x5f, 0xf4, 0x93, 0xa0, 0x73, 0x41, 0xe2, 0xf7, 0x4f, 0xf5, 0x81,
      0x49, 0xd2, 0x2a, 0xb9, 0xba, 0x19, 0xf6, 0x13, 0x43, 0xe2, 0xc8, 0x6c, 0x71, 0xc5, 0xd6, 0x6d]"
proof -
  have len: "length
      [0x01, 0x00, 0x00, 0x00, 0x00, 0x00, 0x00, 0x00, 0x00, 0x00, 0x00, 0x00, 0x00, 0x00, 0x00, 0x00,
       0x00, 0x00, 0x00, 0x00, 0x00, 0x00, 0x00, 0x00, 0x00, 0x00, 0x00, 0x00, 0x00, 0x00, 0x00, 0x00,
       0x00, 0x00, 0x00, 0x00, 0x3b, 0xa3, 0xed, 0xfd, 0x7a, 0x7b, 0x12, 0xb2, 0x7a, 0xc7, 0x2c, 0x3e,
       0x67, 0x76, 0x8f, 0x61, 0x7f, 0xc8, 0x1b, 0xc3, 0x88, 0x8a, 0x51, 0x32, 0x3a, 0x9f, 0xb8, 0xaa,
       0x4b, 0x1e, 0x5e, 0x4a, 0x29, 0xab, 0x5f, 0x49, 0xff, 0xff, 0x00, 0x1d, 0x1d, 0xac, 0x2b, 0x7c] = 80"
    by simp
  have pad: "[0x01, 0x00, 0x00, 0x00, 0x00, 0x00, 0x00, 0x00, 0x00, 0x00, 0x00, 0x00, 0x00, 0x00, 0x00, 0x00,
       0x00, 0x00, 0x00, 0x00, 0x00, 0x00, 0x00, 0x00, 0x00, 0x00, 0x00, 0x00, 0x00, 0x00, 0x00, 0x00,
       0x00, 0x00, 0x00, 0x00, 0x3b, 0xa3, 0xed, 0xfd, 0x7a, 0x7b, 0x12, 0xb2, 0x7a, 0xc7, 0x2c, 0x3e,
       0x67, 0x76, 0x8f, 0x61, 0x7f, 0xc8, 0x1b, 0xc3, 0x88, 0x8a, 0x51, 0x32, 0x3a, 0x9f, 0xb8, 0xaa,
       0x4b, 0x1e, 0x5e, 0x4a, 0x29, 0xab, 0x5f, 0x49, 0xff, 0xff, 0x00, 0x1d, 0x1d, 0xac, 0x2b, 0x7c]
      @ padding 80
    = [0x01, 0x00, 0x00, 0x00, 0x00, 0x00, 0x00, 0x00, 0x00, 0x00, 0x00, 0x00, 0x00, 0x00, 0x00, 0x00,
       0x00, 0x00, 0x00, 0x00, 0x00, 0x00, 0x00, 0x00, 0x00, 0x00, 0x00, 0x00, 0x00, 0x00, 0x00, 0x00,
       0x00, 0x00, 0x00, 0x00, 0x3b, 0xa3, 0xed, 0xfd, 0x7a, 0x7b, 0x12, 0xb2, 0x7a, 0xc7, 0x2c, 0x3e,
       0x67, 0x76, 0x8f, 0x61, 0x7f, 0xc8, 0x1b, 0xc3, 0x88, 0x8a, 0x51, 0x32, 0x3a, 0x9f, 0xb8, 0xaa,
       0x4b, 0x1e, 0x5e, 0x4a, 0x29, 0xab, 0x5f, 0x49, 0xff, 0xff, 0x00, 0x1d, 0x1d, 0xac, 0x2b, 0x7c,
       0x80, 0x00, 0x00, 0x00, 0x00, 0x00, 0x00, 0x00, 0x00, 0x00, 0x00, 0x00, 0x00, 0x00, 0x00, 0x00,
       0x00, 0x00, 0x00, 0x00, 0x00, 0x00, 0x00, 0x00, 0x00, 0x00, 0x00, 0x00, 0x00, 0x00, 0x00, 0x00,
       0x00, 0x00, 0x00, 0x00, 0x00, 0x00, 0x00, 0x00, 0x00, 0x00, 0x00, 0x00, 0x00, 0x00, 0x02, 0x80]"
    by (simp add: padding_def be64_def replicate_eval)
  have run: "blocks init_regs
      [0x01, 0x00, 0x00, 0x00, 0x00, 0x00, 0x00, 0x00, 0x00, 0x00, 0x00, 0x00, 0x00, 0x00, 0x00, 0x00,
       0x00, 0x00, 0x00, 0x00, 0x00, 0x00, 0x00, 0x00, 0x00, 0x00, 0x00, 0x00, 0x00, 0x00, 0x00, 0x00,
       0x00, 0x00, 0x00, 0x00, 0x3b, 0xa3, 0xed, 0xfd, 0x7a, 0x7b, 0x12, 0xb2, 0x7a, 0xc7, 0x2c, 0x3e,
       0x67, 0x76, 0x8f, 0x61, 0x7f, 0xc8, 0x1b, 0xc3, 0x88, 0x8a, 0x51, 0x32, 0x3a, 0x9f, 0xb8, 0xaa,
       0x4b, 0x1e, 0x5e, 0x4a, 0x29, 0xab, 0x5f, 0x49, 0xff, 0xff, 0x00, 0x1d, 0x1d, 0xac, 0x2b, 0x7c,
       0x80, 0x00, 0x00, 0x00, 0x00, 0x00, 0x00, 0x00, 0x00, 0x00, 0x00, 0x00, 0x00, 0x00, 0x00, 0x00,
       0x00, 0x00, 0x00, 0x00, 0x00, 0x00, 0x00, 0x00, 0x00, 0x00, 0x00, 0x00, 0x00, 0x00, 0x00, 0x00,
       0x00, 0x00, 0x00, 0x00, 0x00, 0x00, 0x00, 0x00, 0x00, 0x00, 0x00, 0x00, 0x00, 0x00, 0x02, 0x80]
    = (0xaf42031e, 0x805ff493, 0xa07341e2, 0xf74ff581, 0x49d22ab9, 0xba19f613, 0x43e2c86c, 0x71c5d66d)"
    by (simp add: blocks_128 genesis_inner_block1 genesis_inner_block2)
  have dig: "digest (0xaf42031e, 0x805ff493, 0xa07341e2, 0xf74ff581, 0x49d22ab9, 0xba19f613, 0x43e2c86c, 0x71c5d66d)
    = [0xaf, 0x42, 0x03, 0x1e, 0x80, 0x5f, 0xf4, 0x93, 0xa0, 0x73, 0x41, 0xe2, 0xf7, 0x4f, 0xf5, 0x81,
      0x49, 0xd2, 0x2a, 0xb9, 0xba, 0x19, 0xf6, 0x13, 0x43, 0xe2, 0xc8, 0x6c, 0x71, 0xc5, 0xd6, 0x6d]"
    by (simp add: be32_def)
  show ?thesis
    unfolding Sum256_def len pad run by (rule dig)
qed
lemma genesis_outer_block1:
  "block init_regs
     [0xaf, 0x42, 0x03, 0x1e, 0x80, 0x5f, 0xf4, 0x93, 0xa0, 0x73, 0x41, 0xe2, 0xf7, 0x4f, 0xf5, 0x81,
      0x49, 0xd2, 0x2a, 0xb9, 0xba, 0x19, 0xf6, 0x13, 0x43, 0xe2, 0xc8, 0x6c, 0x71, 0xc5, 0xd6, 0x6d,
      0x80, 0x00, 0x00, 0x00, 0x00, 0x00, 0x00, 0x00, 0x00, 0x00, 0x00, 0x00, 0x00, 0x00, 0x00, 0x00,
      0x00, 0x00, 0x00, 0x00, 0x00, 0x00, 0x00, 0x00, 0x00, 0x00, 0x00, 0x00, 0x00, 0x00, 0x01, 0x00]
   = (0x6fe28c0a, 0xb6f1b372, 0xc1a6a246, 0xae63f74f, 0x931e8365, 0xe15a089c, 0x68d61900, 0x00000000)"
  by (simp add: sha_eval del: sha_del)

lemma genesis_outer:
  "Sum256
      [0xaf, 0x42, 0x03, 0x1e, 0x80, 0x5f, 0xf4, 0x93, 0xa0, 0x73, 0x41, 0xe2, 0xf7, 0x4f, 0xf5, 0x81,
       0x49, 0xd2, 0x2a, 0xb9, 0xba, 0x19, 0xf6, 0x13, 0x43, 0xe2, 0xc8, 0x6c, 0x71, 0xc5, 0xd6, 0x6d]
   = [0x6f, 0xe2, 0x8c, 0x0a, 0xb6, 0xf1, 0xb3, 0x72, 0xc1, 0xa6, 0xa2, 0x46, 0xae, 0x63, 0xf7, 0x4f,
      0x93, 0x1e, 0x83, 0x65, 0xe1, 0x5a, 0x08, 0x9c, 0x68, 0xd6, 0x19, 0x00, 0x00, 0x00, 0x00, 0x00]"
proof -
  have len: "length
      [0xaf, 0x42, 0x03, 0x1e, 0x80, 0x5f, 0xf4, 0x93, 0xa0, 0x73, 0x41, 0xe2, 0xf7, 0x4f, 0xf5, 0x81,
       0x49, 0xd2, 0x2a, 0xb9, 0xba, 0x19, 0xf6, 0x13, 0x43, 0xe2, 0xc8, 0x6c, 0x71, 0xc5, 0xd6, 0x6d] = 32"
    by simp
  have pad: "[0xaf, 0x42, 0x03, 0x1e, 0x80, 0x5f, 0xf4, 0x93, 0xa0, 0x73, 0x41, 0xe2, 0xf7, 0x4f, 0xf5, 0x81,
       0x49, 0xd2, 0x2a, 0xb9, 0xba, 0x19, 0xf6, 0x13, 0x43, 0xe2, 0xc8, 0x6c, 0x71, 0xc5, 0xd6, 0x6d]
      @ padding 32
    = [0xaf, 0x42, 0x03, 0x1e, 0x80, 0x5f, 0xf4, 0x93, 0xa0, 0x73, 0x41, 0xe2, 0xf7, 0x4f, 0xf5, 0x81,
       0x49, 0xd2, 0x2a, 0xb9, 0xba, 0x19, 0xf6, 0x13, 0x43, 0xe2, 0xc8, 0x6c, 0x71, 0xc5, 0xd6, 0x6d,
       0x80, 0x00, 0x00, 0x00, 0x00, 0x00, 0x00, 0x00, 0x00, 0x00, 0x00, 0x00, 0x00, 0x00, 0x00, 0x00,
       0x00, 0x00, 0x00, 0x00, 0x00, 0x00, 0x00, 0x00, 0x00, 0x00, 0x00, 0x00, 0x00, 0x00, 0x01, 0x00]"
    by (simp add: padding_def be64_def replicate_eval)
  have run: "blocks init_regs
      [0xaf, 0x42, 0x03, 0x1e, 0x80, 0x5f, 0xf4, 0x93, 0xa0, 0x73, 0x41, 0xe2, 0xf7, 0x4f, 0xf5, 0x81,
       0x49, 0xd2, 0x2a, 0xb9, 0xba, 0x19, 0xf6, 0x13, 0x43, 0xe2, 0xc8, 0x6c, 0x71, 0xc5, 0xd6, 0x6d,
       0x80, 0x00, 0x00, 0x00, 0x00, 0x00, 0x00, 0x00, 0x00, 0x00, 0x00, 0x00, 0x00, 0x00, 0x00, 0x00,
       0x00, 0x00, 0x00, 0x00, 0x00, 0x00, 0x00, 0x00, 0x00, 0x00, 0x00, 0x00, 0x00, 0x00, 0x01, 0x00]
    = (0x6fe28c0a, 0xb6f1b372, 0xc1a6a246, 0xae63f74f, 0x931e8365, 0xe15a089c, 0x68d61900, 0x00000000)"
    by (simp add: blocks_64 genesis_outer_block1)
  have dig: "digest (0x6fe28c0a, 0xb6f1b372, 0xc1a6a246, 0xae63f74f, 0x931e8365, 0xe15a089c, 0x68d61900, 0x00000000)
    = [0x6f, 0xe2, 0x8c, 0x0a, 0xb6, 0xf1, 0xb3, 0x72, 0xc1, 0xa6, 0xa2, 0x46, 0xae, 0x63, 0xf7, 0x4f,
      0x93, 0x1e, 0x83, 0x65, 0xe1, 0x5a, 0x08, 0x9c, 0x68, 0xd6, 0x19, 0x00, 0x00, 0x00, 0x00, 0x00]"
    by (simp add: be32_def)
  show ?thesis
    unfolding Sum256_def len pad run by (rule dig)
qed

lemma junkcoinGenesisHash_value:
  "junkcoinGenesisHash
   = [0x6f, 0xe2, 0x8c, 0x0a, 0xb6, 0xf1, 0xb3, 0x72, 0xc1, 0xa6, 0xa2, 0x46, 0xae, 0x63, 0xf7, 0x4f,
      0x93, 0x1e, 0x83, 0x65, 0xe1, 0x5a, 0x08, 0x9c, 0x68, 0xd6, 0x19, 0x00, 0x00, 0x00, 0x00, 0x00]"
  unfolding junkcoinGenesisHash_def BlockHash_def DoubleHashB_def genesis_header_bytes genesis_inner
  by (rule genesis_outer)

lemma genesis_hash_parses:
  "NewHashFromStr ''000000000019d6689c085ae165831e934ff763ae46a2a6c172b3f1b60a8ce26f''
   = Inr [0x6f, 0xe2, 0x8c, 0x0a, 0xb6, 0xf1, 0xb3, 0x72, 0xc1, 0xa6, 0xa2, 0x46, 0xae, 0x63, 0xf7, 0x4f,
         0x93, 0x1e, 0x83, 0x65, 0xe1, 0x5a, 0x08, 0x9c, 0x68, 0xd6, 0x19, 0x00, 0x00, 0x00, 0x00, 0x00]"
  by (simp add: parse_eval)

subsection \<open>The hash of the test network genesis header\<close>

text \<open>The first 64 bytes of the two headers are the same, and so is the first block.\<close>

lemma testnet_header_bytes:
  "writeBlockHeader (Header junkcoinTestNetGenesisBlock)
   = [0x01, 0x00, 0x00, 0x00, 0x00, 0x00, 0x00, 0x00, 0x00, 0x00, 0x00, 0x00, 0x00, 0x00, 0x00, 0x00,
      0x00, 0x00, 0x00, 0x00, 0x00, 0x00, 0x00, 0x00, 0x00, 0x00, 0x00, 0x00, 0x00, 0x00, 0x00, 0x00,
      0x00, 0x00, 0x00, 0x00, 0x3b, 0xa3, 0xed, 0xfd, 0x7a, 0x7b, 0x12, 0xb2, 0x7a, 0xc7, 0x2c, 0x3e,
      0x67, 0x76, 0x8f, 0x61, 0x7f, 0xc8, 0x1b, 0xc3, 0x88, 0x8a, 0x51, 0x32, 0x3a, 0x9f, 0xb8, 0xaa,
      0x4b, 0x1e, 0x5e, 0x4a, 0xda, 0xe5, 0x49, 0x4d, 0xff, 0xff, 0x00, 0x1d, 0x1a, 0xa4, 0xae, 0x18]"
  by (simp add: writeBlockHeader_def junkcoinTestNetGenesisBlock_def le32_def zeroHash_def replicate_eval
      junkcoinTestNetGenesisMerkleRoot_def junkcoinGenesisMerkleRoot_parses time_Unix_def)

lemma testnet_inner_block2:
  "block (0xbc909a33, 0x6358bff0, 0x90ccac7d, 0x1e59caa8, 0xc3c8d8e9, 0x4f0103c8, 0x96b18736, 0x4719f91b)
     [0x4b, 0x1e, 0x5e, 0x4a, 0xda, 0xe5, 0x49, 0x4d, 0xff, 0xff, 0x00, 0x1d, 0x1a, 0xa4, 0xae, 0x18,
      0x80, 0x00, 0x00, 0x00, 0x00, 0x00, 0x00, 0x00, 0x00, 0x00, 0x00, 0x00, 0x00, 0x00, 0x00, 0x00,
      0x00, 0x00, 0x00, 0x00, 0x00, 0x00, 0x00, 0x00, 0x00, 0x00, 0x00, 0x00, 0x00, 0x00, 0x00, 0x00,
      0x00, 0x00, 0x00, 0x00, 0x00, 0x00, 0x00, 0x00, 0x00, 0x00, 0x00, 0x00, 0x00, 0x00, 0x02, 0x80]
   = (0x87d44aa0, 0x147d5a93, 0x7847ee54, 0xd8e34b69, 0xcbaf7864, 0x9dd28a38, 0xfe0ad524, 0x8d96abde)"
  by (simp add: sha_eval del: sha_del)

lemma testnet_inner:
  "Sum256
      [0x01, 0x00, 0x00, 0x00, 0x00, 0x00, 0x00, 0x00, 0x00, 0x00, 0x00, 0x00, 0x00, 0x00, 0x00, 0x00,
       0x00, 0x00, 0x00, 0x00, 0x00, 0x00, 0x00, 0x00, 0x00, 0x00, 0x00, 0x00, 0x00, 0x00, 0x00, 0x00,
       0x00, 0x00, 0x00, 0x00, 0x3b, 0xa3, 0xed, 0xfd, 0x7a, 0x7b, 0x12, 0xb2, 0x7a, 0xc7, 0x2c, 0x3e,
       0x67, 0x76, 0x8f, 0x61, 0x7f, 0xc8, 0x1b, 0xc3, 0x88, 0x8a, 0x51, 0x32, 0x3a, 0x9f, 0xb8, 0xaa,
       0x4b, 0x1e, 0x5e, 0x4a, 0xda, 0xe5, 0x49, 0x4d, 0xff, 0xff, 0x00, 0x1d, 0x1a, 0xa4, 0xae, 0x18]
   = [0x87, 0xd4, 0x4a, 0xa0, 0x14, 0x7d, 0x5a, 0x93, 0x78, 0x47, 0xee, 0x54, 0xd8, 0xe3, 0x4b, 0x69,
      0xcb, 0xaf, 0x78, 0x64, 0x9d, 0xd2, 0x8a, 0x38, 0xfe, 0x0a, 0xd5, 0x24, 0x8d, 0x96, 0xab, 0xde]"
proof -
  have len: "length
      [0x01, 0x00, 0x00, 0x00, 0x00, 0x00, 0x00, 0x00, 0x00, 0x00, 0x00, 0x00, 0x00, 0x00, 0x00, 0x00,
       0x00, 0x00, 0x00, 0x00, 0x00, 0x00, 0x00, 0x00, 0x00, 0x00, 0x00, 0x00, 0x00, 0x00, 0x00, 0x00,
       0x00, 0x00, 0x00, 0x00, 0x3b, 0xa3, 0xed, 0xfd, 0x7a, 0x7b, 0x12, 0xb2, 0x7a, 0xc7, 0x2c, 0x3e,
       0x67, 0x76, 0x8f, 0x61, 0x7f, 0xc8, 0x1b, 0xc3, 0x88, 0x8a, 0x51, 0x32, 0x3a, 0x9f, 0xb8, 0xaa,
       0x4b, 0x1e, 0x5e, 0x4a, 0xda, 0xe5, 0x49, 0x4d, 0xff, 0xff, 0x00, 0x1d, 0x1a, 0xa4, 0xae, 0x18] = 80"
    by simp
  have pad: "[0x01, 0x00, 0x00, 0x00, 0x00, 0x00, 0x00, 0x00, 0x00, 0x00, 0x00, 0x00, 0x00, 0x00, 0x00, 0x00,
       0x00, 0x00, 0x00, 0x00, 0x00, 0x00, 0x00, 0x00, 0x00, 0x00, 0x00, 0x00, 0x00, 0x00, 0x00, 0x00,
       0x00, 0x00, 0x00, 0x00, 0x3b, 0xa3, 0xed, 0xfd, 0x7a, 0x7b, 0x12, 0xb2, 0x7a, 0xc7, 0x2c, 0x3e,
       0x67, 0x76, 0x8f, 0x61, 0x7f, 0xc8, 0x1b, 0xc3, 0x88, 0x8a, 0x51, 0x32, 0x3a, 0x9f, 0xb8, 0xaa,
       0x4b, 0x1e, 0x5e, 0x4a, 0xda, 0xe5, 0x49, 0x4d, 0xff, 0xff, 0x00, 0x1d, 0x1a, 0xa4, 0xae, 0x18]
      @ padding 80
    = [0x01, 0x00, 0x00, 0x00, 0x00, 0x00, 0x00, 0x00, 0x00, 0x00, 0x00, 0x00, 0x00, 0x00, 0x00, 0x00,
       0x00, 0x00, 0x00, 0x00, 0x00, 0x00, 0x00, 0x00, 0x00, 0x00, 0x00, 0x00, 0x00, 0x00, 0x00, 0x00,
       0x00, 0x00, 0x00, 0x00, 0x3b, 0xa3, 0xed, 0xfd, 0x7a, 0x7b, 0x12, 0xb2, 0x7a, 0xc7, 0x2c, 0x3e,
       0x67, 0x76, 0x8f, 0x61, 0x7f, 0xc8, 0x1b, 0xc3, 0x88, 0x8a, 0x51, 0x32, 0x3a, 0x9f, 0xb8, 0xaa,
       0x4b, 0x1e, 0x5e, 0x4a, 0xda, 0xe5, 0x49, 0x4d, 0xff, 0xff, 0x00, 0x1d, 0x1a, 0xa4, 0xae, 0x18,
       0x80, 0x00, 0x00, 0x00, 0x00, 0x00, 0x00, 0x00, 0x00, 0x00, 0x00, 0x00, 0x00, 0x00, 0x00, 0x00,
       0x00, 0x00, 0x00, 0x00, 0x00, 0x00, 0x00, 0x00, 0x00, 0x00, 0x00, 0x00, 0x00, 0x00, 0x00, 0x00,
       0x00, 0x00, 0x00, 0x00, 0x00, 0x00, 0x00, 0x00, 0x00, 0x00, 0x00, 0x00, 0x00, 0x00, 0x02, 0x80]"
    by (simp add: padding_def be64_def replicate_eval)
  have run: "blocks init_regs
      [0x01, 0x00, 0x00, 0x00, 0x00, 0x00, 0x00, 0x00, 0x00, 0x00, 0x00, 0x00, 0x00, 0x00, 0x00, 0x00,
       0x00, 0x00, 0x00, 0x00, 0x00, 0x00, 0x00, 0x00, 0x00, 0x00, 0x00, 0x00, 0x00, 0x00, 0x00, 0x00,
       0x00, 0x00, 0x00, 0x00, 0x3b, 0xa3, 0xed, 0xfd, 0x7a, 0x7b, 0x12, 0xb2, 0x7a, 0xc7, 0x2c, 0x3e,
       0x67, 0x76, 0x8f, 0x61, 0x7f, 0xc8, 0x1b, 0xc3, 0x88, 0x8a, 0x51, 0x32, 0x3a, 0x9f, 0xb8, 0xaa,
       0x4b, 0x1e, 0x5e, 0x4a, 0xda, 0xe5, 0x49, 0x4d, 0xff, 0xff, 0x00, 0x1d, 0x1a, 0xa4, 0xae, 0x18,
       0x80, 0x00, 0x00, 0x00, 0x00, 0x00, 0x00, 0x00, 0x00, 0x00, 0x00, 0x00, 0x00, 0x00, 0x00, 0x00,
       0x00, 0x00, 0x00, 0x00, 0x00, 0x00, 0x00, 0x00, 0x00, 0x00, 0x00, 0x00, 0x00, 0x00, 0x00, 0x00,
       0x00, 0x00, 0x00, 0x00, 0x00, 0x00, 0x00, 0x00, 0x00, 0x00, 0x00, 0x00, 0x00, 0x00, 0x02, 0x80]
    = (0x87d44aa0, 0x147d5a93, 0x7847ee54, 0xd8e34b69, 0xcbaf7864, 0x9dd28a38, 0xfe0ad524, 0x8d96abde)"
    by (simp add: blocks_128 genesis_inner_block1 testnet_inner_block2)
  have dig: "digest (0x87d44aa0, 0x147d5a93, 0x7847ee54, 0xd8e34b69, 0xcbaf7864, 0x9dd28a38, 0xfe0ad524, 0x8d96abde)
    = [0x87, 0xd4, 0x4a, 0xa0, 0x14, 0x7d, 0x5a, 0x93, 0x78, 0x47, 0xee, 0x54, 0xd8, 0xe3, 0x4b, 0x69,
      0xcb, 0xaf, 0x78, 0x64, 0x9d, 0xd2, 0x8a, 0x38, 0xfe, 0x0a, 0xd5, 0x24, 0x8d, 0x96, 0xab, 0xde]"
    by (simp add: be32_def)
  show ?thesis
    unfolding Sum256_def len pad run by (rule dig)
qed
lemma testnet_outer_block1:
  "block init_regs
     [0x87, 0xd4, 0x4a, 0xa0, 0x14, 0x7d, 0x5a, 0x93, 0x78, 0x47, 0xee, 0x54, 0xd8, 0xe3, 0x4b, 0x69,
      0xcb, 0xaf, 0x78, 0x64, 0x9d, 0xd2, 0x8a, 0x38, 0xfe, 0x0a, 0xd5, 0x24, 0x8d, 0x96, 0xab, 0xde,
      0x80, 0x00, 0x00, 0x00, 0x00, 0x00, 0x00, 0x00, 0x00, 0x00, 0x00, 0x00, 0x00, 0x00, 0x00, 0x00,
      0x00, 0x00, 0x00, 0x00, 0x00, 0x00, 0x00, 0x00, 0x00, 0x00, 0x00, 0x00, 0x00, 0x00, 0x01, 0x00]
   = (0x43497fd7, 0xf8269571, 0x08f4a30f, 0xd9cec3ae, 0xba799720, 0x84e90ead, 0x01ea3309, 0x00000000)"
  by (simp add: sha_eval del: sha_del)

lemma testnet_outer:
  "Sum256
      [0x87, 0xd4, 0x4a, 0xa0, 0x14, 0x7d, 0x5a, 0x93, 0x78, 0x47, 0xee, 0x54, 0xd8, 0xe3, 0x4b, 0x69,
       0xcb, 0xaf, 0x78, 0x64, 0x9d, 0xd2, 0x8a, 0x38, 0xfe, 0x0a, 0xd5, 0x24, 0x8d, 0x96, 0xab, 0xde]
   = [0x43, 0x49, 0x7f, 0xd7, 0xf8, 0x26, 0x95, 0x71, 0x08, 0xf4, 0xa3, 0x0f, 0xd9, 0xce, 0xc3, 0xae,
      0xba, 0x79, 0x97, 0x20, 0x84, 0xe9, 0x0e, 0xad, 0x01, 0xea, 0x33, 0x09, 0x00, 0x00, 0x00, 0x00]"
proof -
  have len: "length
      [0x87, 0xd4, 0x4a, 0xa0, 0x14, 0x7d, 0x5a, 0x93, 0x78, 0x47, 0xee, 0x54, 0xd8, 0xe3, 0x4b, 0x69,
       0xcb, 0xaf, 0x78, 0x64, 0x9d, 0xd2, 0x8a, 0x38, 0xfe, 0x0a, 0xd5, 0x24, 0x8d, 0x96, 0xab, 0xde] = 32"
    by simp
  have pad: "[0x87, 0xd4, 0x4a, 0xa0, 0x14, 0x7d, 0x5a, 0x93, 0x78, 0x47, 0xee, 0x54, 0xd8, 0xe3, 0x4b, 0x69,
       0xcb, 0xaf, 0x78, 0x64, 0x9d, 0xd2, 0x8a, 0x38, 0xfe, 0x0a, 0xd5, 0x24, 0x8d, 0x96, 0xab, 0xde]
      @ padding 32
    = [0x87, 0xd4, 0x4a, 0xa0, 0x14, 0x7d, 0x5a, 0x93, 0x78, 0x47, 0xee, 0x54, 0xd8, 0xe3, 0x4b, 0x69,
       0xcb, 0xaf, 0x78, 0x64, 0x9d, 0xd2, 0x8a, 0x38, 0xfe, 0x0a, 0xd5, 0x24, 0x8d, 0x96, 0xab, 0xde,
       0x80, 0x00, 0x00, 0x00, 0x00, 0x00, 0x00, 0x00, 0x00, 0x00, 0x00, 0x00, 0x00, 0x00, 0x00, 0x00,
       0x00, 0x00, 0x00, 0x00, 0x00, 0x00, 0x00, 0x00, 0x00, 0x00, 0x00, 0x00, 0x00, 0x00, 0x01, 0x00]"
    by (simp add: padding_def be64_def replicate_eval)
  have run: "blocks init_regs
      [0x87, 0xd4, 0x4a, 0xa0, 0x14, 0x7d, 0x5a, 0x93, 0x78, 0x47, 0xee, 0x54, 0xd8, 0xe3, 0x4b, 0x69,
       0xcb, 0xaf, 0x78, 0x64, 0x9d, 0xd2, 0x8a, 0x38, 0xfe, 0x0a, 0xd5, 0x24, 0x8d, 0x96, 0xab, 0xde,
       0x80, 0x00, 0x00, 0x00, 0x00, 0x00, 0x00, 0x00, 0x00, 0x00, 0x00, 0x00, 0x00, 0x00, 0x00, 0x00,
       0x00, 0x00, 0x00, 0x00, 0x00, 0x00, 0x00, 0x00, 0x00, 0x00, 0x00, 0x00, 0x00, 0x00, 0x01, 0x00]
    = (0x43497fd7, 0xf8269571, 0x08f4a30f, 0xd9cec3ae, 0xba799720, 0x84e90ead, 0x01ea3309, 0x00000000)"
    by (simp add: blocks_64 testnet_outer_block1)
  have dig: "digest (0x43497fd7, 0xf8269571, 0x08f4a30f, 0xd9cec3ae, 0xba799720, 0x84e90ead, 0x01ea3309, 0x00000000)
    = [0x43, 0x49, 0x7f, 0xd7, 0xf8, 0x26, 0x95, 0x71, 0x08, 0xf4, 0xa3, 0x0f, 0xd9, 0xce, 0xc3, 0xae,
      0xba, 0x79, 0x97, 0x20, 0x84, 0xe9, 0x0e, 0xad, 0x01, 0xea, 0x33, 0x09, 0x00, 0x00, 0x00, 0x00]"
    by (simp add: be32_def)
  show ?thesis
    unfolding Sum256_def len pad run by (rule dig)
qed

lemma junkcoinTestNetGenesisHash_value:
  "junkcoinTestNetGenesisHash
   = [0x43, 0x49, 0x7f, 0xd7, 0xf8, 0x26, 0x95, 0x71, 0x08, 0xf4, 0xa3, 0x0f, 0xd9, 0xce, 0xc3, 0xae,
      0xba, 0x79, 0x97, 0x20, 0x84, 0xe9, 0x0e, 0xad, 0x01, 0xea, 0x33, 0x09, 0x00, 0x00, 0x00, 0x00]"
  unfolding junkcoinTestNetGenesisHash_def BlockHash_def DoubleHashB_def testnet_header_bytes testnet_inner
  by (rule testnet_outer)

lemma testnet_genesis_hash_parses:
  "NewHashFromStr ''000000000933ea01ad0ee984209779baaec3ced90fa3f408719526f8d77f4943''
   = Inr [0x43, 0x49, 0x7f, 0xd7, 0xf8, 0x26, 0x95, 0x71, 0x08, 0xf4, 0xa3, 0x0f, 0xd9, 0xce, 0xc3, 0xae,
         0xba, 0x79, 0x97, 0x20, 0x84, 0xe9, 0x0e, 0xad, 0x01, 0xea, 0x33, 0x09, 0x00, 0x00, 0x00, 0x00]"
  by (simp add: parse_eval)

subsection \<open>The checkpoint at height 0\<close>

lemma checkpoint_at_zero:
  "checkpoint_at JunkcoinMainNetParams 0
   = Some \<lparr>Height = 0, Hash = [0xc6, 0x64, 0x4b, 0x79, 0xfe, 0x0d, 0x7f, 0xa8, 0xa2, 0x30, 0x0b, 0x91, 0x48, 0x3e, 0xe1, 0x03,
         0x17, 0xc2, 0x79, 0x61, 0xd7, 0x61, 0x8a, 0xe0, 0x77, 0xe3, 0x45, 0x81, 0x73, 0xfa, 0xef, 0xa2]\<rparr>"
  by (simp add: checkpoint_at_def JunkcoinMainNetParams_def checkpoint0_parses)

lemma verify_checkpoint_zero:
  "verify JunkcoinMainNetParams 0 h =
     (if h = [0xc6, 0x64, 0x4b, 0x79, 0xfe, 0x0d, 0x7f, 0xa8, 0xa2, 0x30, 0x0b, 0x91, 0x48, 0x3e, 0xe1, 0x03,
         0x17, 0xc2, 0x79, 0x61, 0xd7, 0x61, 0x8a, 0xe0, 0x77, 0xe3, 0x45, 0x81, 0x73, 0xfa, 0xef, 0xa2]
      then Inr () else Inl CheckpointMismatch)"
  by (simp add: verify_def checkpoint_at_zero)

text \<open>The test network has the same checkpoint at height 0 and the same mismatch.\<close>

lemma testnet_genesis_fails_checkpoint_zero:
  "verify JunkcoinTestNetParams 0 (GenesisHash JunkcoinTestNetParams) = Inl CheckpointMismatch"
  by (simp add: verify_def checkpoint_at_def JunkcoinTestNetParams_def checkpoint0_parses
      junkcoinTestNetGenesisHash_value)

text \<open>
  C2 (fails on the code). The stored main network genesis block is the header with
  timestamp 1231006505 and nonce 2083236893; its block hash is
  \<open>000000000019d668\<dots>0a8ce26f\<close>, not the hash \<open>a2effa73\<dots>794b64c6\<close> of the checkpoint
  at height 0. So \<open>verify\<close> at height 0 with the stored genesis hash returns
  \<open>CheckpointMismatch\<close>, where the claim says it succeeds. (The second half of the
  claim holds: by \<open>verify_checkpoint_zero\<close> every hash other than the checkpoint's fails.)
\<close>

theorem genesis_hash_fails_checkpoint_zero:
  "Inr (GenesisHash JunkcoinMainNetParams)
     = NewHashFromStr ''000000000019d6689c085ae165831e934ff763ae46a2a6c172b3f1b60a8ce26f''
   \<and> map_option Hash (checkpoint_at JunkcoinMainNetParams 0)
     = Some (projr (newHashFromStr ''a2effa738145e377e08a61d76179c21703e13e48910b30a2a87f0dfe794b64c6''))
   \<and> verify JunkcoinMainNetParams 0 (GenesisHash JunkcoinMainNetParams) = Inl CheckpointMismatch"
proof -
  have gh: "GenesisHash JunkcoinMainNetParams = junkcoinGenesisHash"
    by (simp add: JunkcoinMainNetParams_def)
  show ?thesis
    unfolding gh junkcoinGenesisHash_value genesis_hash_parses verify_checkpoint_zero
      checkpoint_at_zero checkpoint0_parses
    by simp
qed

end
